theory Spec2Isabelle
  imports Main "HOL-Library.Sublist"
begin

section \<open>Marketplace hooks of react-core: a shallow embedding\<close>

text \<open>
  The development follows \<^verbatim>\<open>packages/react-core/src/evm/hooks/async/marketplace.ts\<close>.
  A hook is a function of what the component passes in (the contract handle, a listing
  id) and of what the ambient React hooks return (the wallet address, the chain id).
  A fetcher or a mutation function is the pair of the effects it performs, in order, and
  of what its promise settles to: \<open>Inl\<close> a thrown error, \<open>Inr\<close> the resolved value, where
  \<open>None\<close> is JavaScript's \<^verbatim>\<open>undefined\<close>.
\<close>

subsection \<open>Data\<close>

type_synonym address = string

text \<open>\<^verbatim>\<open>ListingType\<close> of the SDK: an enum of two members.\<close>

datatype ListingType = Direct | Auction

text \<open>
  What a promise rejects with. \<open>InvariantFailed m\<close> is the error of \<^verbatim>\<open>invariant(cond, m)\<close>
  and of \<^verbatim>\<open>requiredParamInvariant(param, m)\<close>; \<open>TypeError\<close> is what the engine throws on
  reading a property of \<^verbatim>\<open>undefined\<close> or calling a missing method; \<open>InvalidArgument\<close> is
  the big-number library refusing a value; \<open>ProviderRejection\<close> is whatever the contract
  call rejected with, carrying its \<^verbatim>\<open>message\<close> property when it has one.
\<close>

datatype js_error =
    InvariantFailed string
  | TypeError string
  | InvalidArgument string
  | ProviderRejection "string option"

fun message :: "js_error \<Rightarrow> string option" where
  "message (InvariantFailed m) = Some (''Invariant failed: '' @ m)"
| "message (TypeError m) = Some m"
| "message (InvalidArgument m) = Some m"
| "message (ProviderRejection m) = m"

text \<open>\<^verbatim>\<open>String.prototype.includes\<close>: the search string occurs as a contiguous part.\<close>

definition str_includes :: "string \<Rightarrow> string \<Rightarrow> bool" where
  "str_includes s search = sublist search s"

text \<open>
  The calls the hooks issue to the contract. Listing ids, bids and amounts are
  \<^verbatim>\<open>BigNumberish\<close>, modelled by the integer they denote; \<open>'x\<close> stands for the values the
  hooks pass through unread (a filter, the data of a new listing, a price) and for the
  values the contract resolves with.
\<close>

datatype 'x call =
    GetListing int
  | GetAllListings "'x option"
  | GetTotalCount
  | GetActiveListings "'x option"
  | GetBidBufferBps
  | AuctionGetWinningBid int
  | AuctionGetWinner int
  | AuctionGetMinimumNextBid int
  | DirectCreateListing 'x
  | AuctionCreateListing 'x
  | DirectCancelListing int
  | AuctionCancelListing int
  | AuctionMakeBid int int
  | MakeOffer int 'x int
  | DirectAcceptOffer int address
  | AuctionExecuteSale int
  | DirectBuyoutListing int "int option" "address option"
  | AuctionBuyoutListing int

text \<open>
  The handle. \<^verbatim>\<open>contract.direct\<close> and \<^verbatim>\<open>contract.auction\<close> may be \<^verbatim>\<open>undefined\<close> (two hooks
  test \<^verbatim>\<open>contract?.direct\<close> and \<^verbatim>\<open>contract?.auction\<close>), and each of their methods may be
  missing (the hooks test some of them with \<^verbatim>\<open>invariant\<close>): a flag per method says whether
  it is there. \<open>provider\<close> is how the contract settles each call.
\<close>

record DirectApi =
  d_createListing :: bool
  d_cancelListing :: bool
  d_acceptOffer :: bool
  d_buyoutListing :: bool

record AuctionApi =
  a_getWinningBid :: bool
  a_getWinner :: bool
  a_getMinimumNextBid :: bool
  a_createListing :: bool
  a_cancelListing :: bool
  a_makeBid :: bool
  a_executeSale :: bool
  a_buyoutListing :: bool

record 'x Marketplace =
  getAddress :: address
  direct :: "DirectApi option"
  auction :: "AuctionApi option"
  provider :: "'x call \<Rightarrow> js_error + 'x"

text \<open>
  An effect is a call to the contract, or a call of
  \<^verbatim>\<open>invalidateContractAndBalances(queryClient, contractAddress, activeChainId)\<close>, recorded
  with the address and the chain id it is given.
\<close>

datatype 'x effect =
    ProviderCall "'x call"
  | Invalidate "address option" "int option"

type_synonym 'x fetch = "'x effect list \<times> (js_error + 'x option)"

text \<open>What \<^verbatim>\<open>useAddress()\<close> and \<^verbatim>\<open>useSDKChainId()\<close> return where the hook is rendered.\<close>

record HookEnv =
  walletAddress :: "address option"
  activeChainId :: "int option"

subsection \<open>Helpers\<close>

text \<open>\<^verbatim>\<open>invariant\<close> of tiny-invariant throws when its condition is falsy.\<close>

definition invariant :: "bool \<Rightarrow> string \<Rightarrow> js_error + unit" where
  "invariant condition msg = (if condition then Inr () else Inl (InvariantFailed msg))"

text \<open>A string or \<^verbatim>\<open>undefined\<close> is truthy when it is a non-empty string.\<close>

definition truthy :: "string option \<Rightarrow> bool" where
  "truthy s = (case s of None \<Rightarrow> False | Some v \<Rightarrow> v \<noteq> [])"

text \<open>
  Modelled from the spec: \<^verbatim>\<open>requiredParamInvariant\<close> of
  \<^verbatim>\<open>core/query-utils/required-param\<close> is not among the sources. It fails with the given
  message when the required parameter is absent and narrows it to its value otherwise.
\<close>

definition requiredParamInvariant :: "'a option \<Rightarrow> string \<Rightarrow> js_error + 'a" where
  "requiredParamInvariant param msg =
     (case param of None \<Rightarrow> Inl (InvariantFailed msg) | Some v \<Rightarrow> Inr v)"

text \<open>Sequencing: a failed check ends the function with no further effect.\<close>

definition check :: "js_error + 'a \<Rightarrow> ('a \<Rightarrow> 'x fetch) \<Rightarrow> 'x fetch" where
  "check r k = (case r of Inl e \<Rightarrow> ([], Inl e) | Inr v \<Rightarrow> k v)"

text \<open>Reading a member of \<^verbatim>\<open>contract.direct\<close> or \<^verbatim>\<open>contract.auction\<close>.\<close>

definition sub_object :: "'a option \<Rightarrow> js_error + 'a" where
  "sub_object obj =
     (case obj of None \<Rightarrow> Inl (TypeError ''Cannot read properties of undefined'')
      | Some a \<Rightarrow> Inr a)"

text \<open>Calling a method of the handle and awaiting it.\<close>

definition invoke :: "'x Marketplace \<Rightarrow> bool \<Rightarrow> 'x call \<Rightarrow> 'x fetch" where
  "invoke c present k =
     (if present then ([ProviderCall k], map_sum id Some (provider c k))
      else ([], Inl (TypeError ''is not a function'')))"

text \<open>\<^verbatim>\<open>try { body } catch (err) { handler(err) }\<close>.\<close>

definition try_catch :: "'x fetch \<Rightarrow> (js_error \<Rightarrow> 'x fetch) \<Rightarrow> 'x fetch" where
  "try_catch body handler =
     (case snd body of
        Inl err \<Rightarrow> (fst body @ fst (handler err), snd (handler err))
      | Inr v \<Rightarrow> body)"

fun provider_calls :: "'x effect list \<Rightarrow> 'x call list" where
  "provider_calls [] = []"
| "provider_calls (ProviderCall k # fx) = k # provider_calls fx"
| "provider_calls (Invalidate a n # fx) = provider_calls fx"

fun invalidations :: "'x effect list \<Rightarrow> (address option \<times> int option) list" where
  "invalidations [] = []"
| "invalidations (ProviderCall k # fx) = invalidations fx"
| "invalidations (Invalidate a n # fx) = (a, n) # invalidations fx"

subsection \<open>Cache keys\<close>

text \<open>
  Modelled from the spec: \<^verbatim>\<open>cacheKeys\<close> of \<^verbatim>\<open>utils/cache-keys\<close> is not among the sources.
  A key is the tuple of the domain, the resource address (possibly absent), the
  operation name and the parameters; each accessor of \<^verbatim>\<open>cacheKeys.contract.marketplace\<close>
  derives the key of the operation it is named after.
\<close>

datatype 'x KeyParams = NoParams | ListingIdParam "int option" | FilterParam "'x option"

record 'x CacheKey =
  key_domain :: string
  key_address :: "address option"
  key_operation :: string
  key_params :: "'x KeyParams"

definition derive :: "address option \<Rightarrow> string \<Rightarrow> 'x KeyParams \<Rightarrow> 'x CacheKey" where
  "derive resourceAddress operation params =
     \<lparr>key_domain = ''contract'', key_address = resourceAddress,
      key_operation = operation, key_params = params\<rparr>"

definition marketplace_getListing :: "address option \<Rightarrow> int option \<Rightarrow> 'x CacheKey" where
  "marketplace_getListing contractAddress listingId =
     derive contractAddress ''getListing'' (ListingIdParam listingId)"

definition marketplace_getAllListings :: "address option \<Rightarrow> 'x option \<Rightarrow> 'x CacheKey" where
  "marketplace_getAllListings contractAddress params =
     derive contractAddress ''getAllListings'' (FilterParam params)"

definition marketplace_getTotalCount :: "address option \<Rightarrow> 'x CacheKey" where
  "marketplace_getTotalCount contractAddress = derive contractAddress ''getTotalCount'' NoParams"

definition marketplace_getActiveListings :: "address option \<Rightarrow> 'x option \<Rightarrow> 'x CacheKey" where
  "marketplace_getActiveListings contractAddress params =
     derive contractAddress ''getActiveListings'' (FilterParam params)"

definition marketplace_getBidBufferBps :: "address option \<Rightarrow> 'x CacheKey" where
  "marketplace_getBidBufferBps contractAddress =
     derive contractAddress ''getBidBufferBps'' NoParams"

definition marketplace_auction_getWinningBid :: "address option \<Rightarrow> int option \<Rightarrow> 'x CacheKey" where
  "marketplace_auction_getWinningBid contractAddress listingId =
     derive contractAddress ''auction.getWinningBid'' (ListingIdParam listingId)"

definition marketplace_auction_getWinner :: "address option \<Rightarrow> int option \<Rightarrow> 'x CacheKey" where
  "marketplace_auction_getWinner contractAddress listingId =
     derive contractAddress ''auction.getWinner'' (ListingIdParam listingId)"

subsection \<open>The query engine\<close>

text \<open>
  Modelled from the spec: \<^verbatim>\<open>useQueryWithNetwork\<close> of \<^verbatim>\<open>query-utils/useQueryWithNetwork\<close> is
  not among the sources. \<^verbatim>\<open>runQuery(key, fetcher, options{enabled, keepPreviousData})\<close>: a
  disabled query does not execute and reports a pending state; an enabled one runs the
  fetcher and reports its value as data or its failure as error.
\<close>

record QueryOptions =
  enabled :: bool
  keepPreviousData :: bool

datatype 'x QueryState = Pending | Failed js_error | Data "'x option"

record 'x QueryResult =
  queryKey :: "'x CacheKey"
  options :: QueryOptions
  effects :: "'x effect list"
  state :: "'x QueryState"

definition useQueryWithNetwork ::
  "'x CacheKey \<Rightarrow> (unit \<Rightarrow> 'x fetch) \<Rightarrow> QueryOptions \<Rightarrow> 'x QueryResult" where
  "useQueryWithNetwork key queryFn opts =
     (if enabled opts then
        \<lparr>queryKey = key, options = opts, effects = fst (queryFn ()),
         state = (case snd (queryFn ()) of Inl e \<Rightarrow> Failed e | Inr v \<Rightarrow> Data v)\<rparr>
      else \<lparr>queryKey = key, options = opts, effects = [], state = Pending\<rparr>)"

subsection \<open>Read hooks\<close>

definition useListing :: "'x Marketplace option \<Rightarrow> int option \<Rightarrow> 'x QueryResult" where
  "useListing contract listingId =
     (let contractAddress = map_option getAddress contract in
      useQueryWithNetwork
        (marketplace_getListing contractAddress listingId)
        (\<lambda>_. check (requiredParamInvariant contract ''No Contract instance provided'') (\<lambda>c.
              check (requiredParamInvariant listingId ''No listing id provided'') (\<lambda>l.
              invoke c True (GetListing l))))
        \<lparr>enabled = (contract \<noteq> None), keepPreviousData = True\<rparr>)"

definition useListings :: "'x Marketplace option \<Rightarrow> 'x option \<Rightarrow> 'x QueryResult" where
  "useListings contract filt =
     (let contractAddress = map_option getAddress contract in
      useQueryWithNetwork
        (marketplace_getAllListings contractAddress filt)
        (\<lambda>_. check (requiredParamInvariant contract ''No Contract instance provided'') (\<lambda>c.
              invoke c True (GetAllListings filt)))
        \<lparr>enabled = (contract \<noteq> None), keepPreviousData = True\<rparr>)"

definition useListingsCount :: "'x Marketplace option \<Rightarrow> 'x QueryResult" where
  "useListingsCount contract =
     (let contractAddress = map_option getAddress contract in
      useQueryWithNetwork
        (marketplace_getTotalCount contractAddress)
        (\<lambda>_. check (requiredParamInvariant contract ''No Contract instance provided'') (\<lambda>c.
              invoke c True GetTotalCount))
        \<lparr>enabled = (contract \<noteq> None), keepPreviousData = False\<rparr>)"

definition useActiveListings :: "'x Marketplace option \<Rightarrow> 'x option \<Rightarrow> 'x QueryResult" where
  "useActiveListings contract filt =
     (let contractAddress = map_option getAddress contract in
      useQueryWithNetwork
        (marketplace_getActiveListings contractAddress filt)
        (\<lambda>_. check (requiredParamInvariant contract ''No Contract instance provided'') (\<lambda>c.
              invoke c True (GetActiveListings filt)))
        \<lparr>enabled = (contract \<noteq> None), keepPreviousData = True\<rparr>)"

definition useWinningBid :: "'x Marketplace option \<Rightarrow> int option \<Rightarrow> 'x QueryResult" where
  "useWinningBid contract listingId =
     (let contractAddress = map_option getAddress contract in
      useQueryWithNetwork
        (marketplace_auction_getWinningBid contractAddress listingId)
        (\<lambda>_. check (requiredParamInvariant contract ''No Contract instance provided'') (\<lambda>c.
              check (requiredParamInvariant listingId ''No listing id provided'') (\<lambda>l.
              check (sub_object (auction c)) (\<lambda>a.
              invoke c (a_getWinningBid a) (AuctionGetWinningBid l)))))
        \<lparr>enabled = (contract \<noteq> None \<and> listingId \<noteq> None), keepPreviousData = False\<rparr>)"

definition useAuctionWinner :: "'x Marketplace option \<Rightarrow> int option \<Rightarrow> 'x QueryResult" where
  "useAuctionWinner contract listingId =
     (let contractAddress = map_option getAddress contract in
      useQueryWithNetwork
        (marketplace_auction_getWinner contractAddress listingId)
        (\<lambda>_. check (requiredParamInvariant contract ''No Contract instance provided'') (\<lambda>c.
              check (requiredParamInvariant listingId ''No listing id provided'') (\<lambda>l.
              try_catch
                (check (sub_object (auction c)) (\<lambda>a.
                 invoke c (a_getWinner a) (AuctionGetWinner l)))
                (\<lambda>err.
                   if \<not> (case message err of None \<Rightarrow> False
                          | Some m \<Rightarrow> str_includes m ''Could not find auction'')
                   then ([], Inl err)
                   else ([], Inr None)))))
        \<lparr>enabled = (contract \<noteq> None \<and> listingId \<noteq> None), keepPreviousData = False\<rparr>)"

definition useBidBuffer :: "'x Marketplace option \<Rightarrow> 'x QueryResult" where
  "useBidBuffer contract =
     (let contractAddress = map_option getAddress contract in
      useQueryWithNetwork
        (marketplace_getBidBufferBps contractAddress)
        (\<lambda>_. check (requiredParamInvariant contract ''No Contract instance provided'') (\<lambda>c.
              invoke c True GetBidBufferBps))
        \<lparr>enabled = (contract \<noteq> None), keepPreviousData = False\<rparr>)"

definition useMinimumNextBid :: "'x Marketplace option \<Rightarrow> int option \<Rightarrow> 'x QueryResult" where
  "useMinimumNextBid contract listingId =
     (let contractAddress = map_option getAddress contract in
      useQueryWithNetwork
        (marketplace_auction_getWinner contractAddress listingId)
        (\<lambda>_. check (requiredParamInvariant contract ''No Contract instance provided'') (\<lambda>c.
              check (requiredParamInvariant listingId ''No listing id provided'') (\<lambda>l.
              check (sub_object (auction c)) (\<lambda>a.
              invoke c (a_getMinimumNextBid a) (AuctionGetMinimumNextBid l)))))
        \<lparr>enabled = (contract \<noteq> None \<and> listingId \<noteq> None), keepPreviousData = False\<rparr>)"

subsection \<open>The mutation engine\<close>

text \<open>
  \<^verbatim>\<open>useMutation(mutationFn, {onSettled})\<close> of the query library, as the spec's
  \<^verbatim>\<open>runMutation(fetcher, options{onSettled})\<close>: \<^verbatim>\<open>mutate(variables)\<close> runs the mutation
  function, then \<^verbatim>\<open>onSettled\<close> whether it resolved or rejected, and settles to the mutation
  function's outcome.
\<close>

definition useMutation ::
  "('a \<Rightarrow> 'x fetch) \<Rightarrow> (unit \<Rightarrow> 'x effect list) \<Rightarrow> 'a \<Rightarrow> 'x fetch" where
  "useMutation mutationFn onSettled variables =
     (fst (mutationFn variables) @ onSettled (), snd (mutationFn variables))"

text \<open>
  \<^verbatim>\<open>invalidateContractAndBalances\<close> of \<^verbatim>\<open>utils/cache-keys\<close> is not among the sources: a
  call of it is recorded as the effect \<open>Invalidate\<close> with its arguments (the query client
  is the ambient one).
\<close>

definition invalidateContractAndBalances :: "address option \<Rightarrow> int option \<Rightarrow> 'x effect list" where
  "invalidateContractAndBalances contractAddress chainId = [Invalidate contractAddress chainId]"

subsection \<open>Inputs of the write hooks\<close>

record ListingRef =
  listing_type :: ListingType
  listing_id :: int

record MakeBidParams =
  mb_listingId :: int
  mb_bid :: int

record 'x MakeOfferParams =
  mo_listingId :: int
  mo_pricePerToken :: 'x
  mo_quantity :: int

record AcceptDirectOffer =
  ao_listingId :: int
  ao_addressOfOfferor :: address

record ExecuteAuctionSale =
  es_listingId :: int

record BuyNowParams =
  bn_id :: int
  bn_type :: ListingType
  bn_buyAmount :: "int option"
  bn_buyForWallet :: "address option"

subsection \<open>Write hooks\<close>

definition useCreateDirectListing ::
  "HookEnv \<Rightarrow> 'x Marketplace option \<Rightarrow> 'x \<Rightarrow> 'x fetch" where
  "useCreateDirectListing env contract =
     (let contractAddress = map_option getAddress contract in
      useMutation
        (\<lambda>data.
           check (invariant (truthy (walletAddress env))
                    ''no wallet connected, cannot create listing'') (\<lambda>_.
           check (requiredParamInvariant contract ''No Contract instance provided'') (\<lambda>c.
           check (sub_object (direct c)) (\<lambda>d.
           check (invariant (d_createListing d)
                    ''contract does not support direct.createListing'') (\<lambda>_.
           check (sub_object (direct c)) (\<lambda>d'.
           invoke c (d_createListing d') (DirectCreateListing data)))))))
        (\<lambda>_. invalidateContractAndBalances contractAddress (activeChainId env)))"

definition useCreateAuctionListing ::
  "HookEnv \<Rightarrow> 'x Marketplace option \<Rightarrow> 'x \<Rightarrow> 'x fetch" where
  "useCreateAuctionListing env contract =
     (let contractAddress = map_option getAddress contract in
      useMutation
        (\<lambda>data.
           check (invariant (truthy (walletAddress env))
                    ''no wallet connected, cannot create listing'') (\<lambda>_.
           check (requiredParamInvariant contract ''No Contract instance provided'') (\<lambda>c.
           check (sub_object (direct c)) (\<lambda>d.
           check (invariant (d_createListing d)
                    ''contract does not support auction.createListing'') (\<lambda>_.
           check (sub_object (auction c)) (\<lambda>a.
           invoke c (a_createListing a) (AuctionCreateListing data)))))))
        (\<lambda>_. invalidateContractAndBalances contractAddress (activeChainId env)))"

definition useCancelListing ::
  "HookEnv \<Rightarrow> 'x Marketplace option \<Rightarrow> ListingRef \<Rightarrow> 'x fetch" where
  "useCancelListing env contract =
     (let contractAddress = map_option getAddress contract in
      useMutation
        (\<lambda>data.
           if listing_type data = Auction then
             (case contract of
                None \<Rightarrow> ([], Inr None)
              | Some c \<Rightarrow>
                  check (sub_object (auction c)) (\<lambda>a.
                  invoke c (a_cancelListing a) (AuctionCancelListing (listing_id data))))
           else
             (case contract of
                None \<Rightarrow> ([], Inr None)
              | Some c \<Rightarrow>
                  check (sub_object (direct c)) (\<lambda>d.
                  invoke c (d_cancelListing d) (DirectCancelListing (listing_id data)))))
        (\<lambda>_. invalidateContractAndBalances contractAddress (activeChainId env)))"

definition useMakeBid ::
  "HookEnv \<Rightarrow> 'x Marketplace option \<Rightarrow> MakeBidParams \<Rightarrow> 'x fetch" where
  "useMakeBid env contract =
     (let contractAddress = map_option getAddress contract in
      useMutation
        (\<lambda>data.
           check (invariant (truthy (walletAddress env))
                    ''no wallet connected, cannot make bid'') (\<lambda>_.
           check (requiredParamInvariant contract ''No Contract instance provided'') (\<lambda>c.
           check (sub_object (auction c)) (\<lambda>a.
           check (invariant (a_makeBid a) ''contract does not support auction.makeBid'') (\<lambda>_.
           check (sub_object (auction c)) (\<lambda>a'.
           invoke c (a_makeBid a') (AuctionMakeBid (mb_listingId data) (mb_bid data))))))))
        (\<lambda>_. invalidateContractAndBalances contractAddress (activeChainId env)))"

definition useMakeOffer ::
  "HookEnv \<Rightarrow> 'x Marketplace option \<Rightarrow> 'x MakeOfferParams \<Rightarrow> 'x fetch" where
  "useMakeOffer env contract =
     (let contractAddress = map_option getAddress contract in
      useMutation
        (\<lambda>data.
           check (invariant (truthy (walletAddress env))
                    ''no wallet connected, cannot make bid'') (\<lambda>_.
           check (requiredParamInvariant contract ''No Contract instance provided'') (\<lambda>c.
           invoke c True
             (MakeOffer (mo_listingId data) (mo_pricePerToken data) (mo_quantity data)))))
        (\<lambda>_. invalidateContractAndBalances contractAddress (activeChainId env)))"

definition useAcceptDirectListingOffer ::
  "HookEnv \<Rightarrow> 'x Marketplace option \<Rightarrow> AcceptDirectOffer \<Rightarrow> 'x fetch" where
  "useAcceptDirectListingOffer env contract =
     (let contractAddress = map_option getAddress contract in
      useMutation
        (\<lambda>data.
           check (invariant (truthy (walletAddress env))
                    ''no wallet connected, cannot make bid'') (\<lambda>_.
           check (requiredParamInvariant
                    (case contract of None \<Rightarrow> None | Some c \<Rightarrow> direct c)
                    ''No Direct instance provided'') (\<lambda>d.
           case contract of
             None \<Rightarrow> ([], Inl (TypeError ''Cannot read properties of undefined''))
           | Some c \<Rightarrow>
               invoke c (d_acceptOffer d)
                 (DirectAcceptOffer (ao_listingId data) (ao_addressOfOfferor data)))))
        (\<lambda>_. invalidateContractAndBalances contractAddress (activeChainId env)))"

definition useExecuteAuctionSale ::
  "HookEnv \<Rightarrow> 'x Marketplace option \<Rightarrow> ExecuteAuctionSale \<Rightarrow> 'x fetch" where
  "useExecuteAuctionSale env contract =
     (let contractAddress = map_option getAddress contract in
      useMutation
        (\<lambda>data.
           check (invariant (truthy (walletAddress env))
                    ''no wallet connected, cannot make bid'') (\<lambda>_.
           check (requiredParamInvariant
                    (case contract of None \<Rightarrow> None | Some c \<Rightarrow> auction c)
                    ''No Auction marketplace instance provided'') (\<lambda>a.
           case contract of
             None \<Rightarrow> ([], Inl (TypeError ''Cannot read properties of undefined''))
           | Some c \<Rightarrow> invoke c (a_executeSale a) (AuctionExecuteSale (es_listingId data)))))
        (\<lambda>_. invalidateContractAndBalances contractAddress (activeChainId env)))"

definition useBuyNow ::
  "HookEnv \<Rightarrow> 'x Marketplace option \<Rightarrow> BuyNowParams \<Rightarrow> 'x fetch" where
  "useBuyNow env contract =
     (let contractAddress = map_option getAddress contract in
      useMutation
        (\<lambda>data.
           check (invariant (truthy (walletAddress env))
                    ''no wallet connected, cannot make bid'') (\<lambda>_.
           check (requiredParamInvariant contract ''No Contract instance provided'') (\<lambda>c.
           if bn_type data = Direct then
             check (sub_object (direct c)) (\<lambda>d.
             check (invariant (d_buyoutListing d)
                      ''contract does not support direct.buyoutListing'') (\<lambda>_.
             invoke c (d_buyoutListing d)
               (DirectBuyoutListing (bn_id data) (bn_buyAmount data) (bn_buyForWallet data))))
           else
             check (sub_object (auction c)) (\<lambda>a.
             check (invariant (a_buyoutListing a)
                      ''contract does not support auction.buyoutListing'') (\<lambda>_.
             invoke c (a_buyoutListing a) (AuctionBuyoutListing (bn_id data)))))))
        (\<lambda>_. invalidateContractAndBalances contractAddress (activeChainId env)))"

subsection \<open>Offers of a listing\<close>

text \<open>
  An event of the \<^verbatim>\<open>NewOffer\<close> stream: its data holds the listing id, a big number, and
  the rest of the offer. \<^verbatim>\<open>useContractEvents\<close> is not among the sources; what it returns
  is taken as given: the events when they are loaded, and the remaining fields, which
  \<^verbatim>\<open>useOffers\<close> spreads into its own result unchanged.
\<close>

record 'x OfferData =
  ev_listingId :: int
  ev_offer :: 'x

record 'x ContractEvent =
  eventName :: string
  ev_data :: "'x OfferData"

record ('a, 'r) EventsResult =
  result_data :: "'a option"
  result_rest :: 'r

text \<open>
  \<^verbatim>\<open>BigNumber.eq(other)\<close> converts its argument to a big number and compares the two
  integers, whatever their size; it throws on an argument that denotes no integer,
  \<^verbatim>\<open>undefined\<close> among them (\<open>None\<close> here).
\<close>

definition bn_eq :: "int \<Rightarrow> int option \<Rightarrow> js_error + bool" where
  "bn_eq self other =
     (case other of None \<Rightarrow> Inl (InvalidArgument ''invalid BigNumber value'')
      | Some n \<Rightarrow> Inr (self = n))"

text \<open>\<^verbatim>\<open>Array.prototype.filter\<close> with a callback that may throw.\<close>

fun filter_array :: "('a \<Rightarrow> js_error + bool) \<Rightarrow> 'a list \<Rightarrow> js_error + 'a list" where
  "filter_array p [] = Inr []"
| "filter_array p (x # xs) =
     (case p x of
        Inl e \<Rightarrow> Inl e
      | Inr b \<Rightarrow>
          (case filter_array p xs of
             Inl e \<Rightarrow> Inl e
           | Inr ys \<Rightarrow> Inr (if b then x # ys else ys)))"

definition useOffers ::
  "('x ContractEvent list, 'r) EventsResult \<Rightarrow> int option \<Rightarrow>
     js_error + ('x OfferData list, 'r) EventsResult" where
  "useOffers result listingId =
     (case result_data result of
        None \<Rightarrow> Inr \<lparr>result_data = None, result_rest = result_rest result\<rparr>
      | Some evs \<Rightarrow>
          (case filter_array (\<lambda>ev. bn_eq (ev_listingId (ev_data ev)) listingId) evs of
             Inl e \<Rightarrow> Inl e
           | Inr kept \<Rightarrow>
               Inr \<lparr>result_data = Some (map ev_data kept), result_rest = result_rest result\<rparr>))"

subsection \<open>Notions the properties are stated with\<close>

text \<open>A query that did not run: disabled, no effect performed, state pending.\<close>

definition inactive :: "'x QueryResult \<Rightarrow> bool" where
  "inactive r = (\<not> enabled (options r) \<and> effects r = [] \<and> state r = Pending)"

text \<open>The contract call that belongs to the type tag of the input.\<close>

definition cancel_path :: "ListingRef \<Rightarrow> 'x call" where
  "cancel_path data =
     (case listing_type data of
        Auction \<Rightarrow> AuctionCancelListing (listing_id data)
      | Direct \<Rightarrow> DirectCancelListing (listing_id data))"

definition buyNow_path :: "BuyNowParams \<Rightarrow> 'x call" where
  "buyNow_path data =
     (case bn_type data of
        Direct \<Rightarrow> DirectBuyoutListing (bn_id data) (bn_buyAmount data) (bn_buyForWallet data)
      | Auction \<Rightarrow> AuctionBuyoutListing (bn_id data))"

text \<open>
  A settled mutation whose last effect is the invalidation for the given address and
  chain, and which invalidated exactly once.
\<close>

definition settles_with_invalidation ::
  "'x fetch \<Rightarrow> address option \<Rightarrow> int option \<Rightarrow> bool" where
  "settles_with_invalidation f contractAddress chainId =
     (fst f \<noteq> [] \<and> last (fst f) = Invalidate contractAddress chainId \<and>
      invalidations (fst f) = [(contractAddress, chainId)])"

subsection \<open>Example inputs\<close>

definition full_direct :: DirectApi where
  "full_direct =
     \<lparr>d_createListing = True, d_cancelListing = True, d_acceptOffer = True,
      d_buyoutListing = True\<rparr>"

definition full_auction :: AuctionApi where
  "full_auction =
     \<lparr>a_getWinningBid = True, a_getWinner = True, a_getMinimumNextBid = True,
      a_createListing = True, a_cancelListing = True, a_makeBid = True,
      a_executeSale = True, a_buyoutListing = True\<rparr>"

text \<open>A marketplace with every method, whose calls all settle to the given outcome.\<close>

definition example_contract :: "js_error + nat \<Rightarrow> nat Marketplace" where
  "example_contract outcome =
     \<lparr>getAddress = ''0xMarket'', direct = Some full_direct, auction = Some full_auction,
      provider = (\<lambda>k. outcome)\<rparr>"

definition connected :: HookEnv where
  "connected = \<lparr>walletAddress = Some ''0xWallet'', activeChainId = Some 1\<rparr>"

definition disconnected :: HookEnv where
  "disconnected = \<lparr>walletAddress = None, activeChainId = Some 1\<rparr>"

definition example_events :: "(nat ContractEvent list, bool) EventsResult" where
  "example_events =
     \<lparr>result_data = Some
        [\<lparr>eventName = ''NewOffer'',
          ev_data = \<lparr>ev_listingId = 9007199254740993, ev_offer = 1\<rparr>\<rparr>,
         \<lparr>eventName = ''NewOffer'',
          ev_data = \<lparr>ev_listingId = 9007199254740992, ev_offer = 2\<rparr>\<rparr>,
         \<lparr>eventName = ''NewOffer'', ev_data = \<lparr>ev_listingId = 6, ev_offer = 3\<rparr>\<rparr>,
         \<lparr>eventName = ''NewOffer'',
          ev_data = \<lparr>ev_listingId = 9007199254740992, ev_offer = 4\<rparr>\<rparr>],
      result_rest = False\<rparr>"

section \<open>Properties\<close>

subsection \<open>Basic facts\<close>

lemmas fetch_defs = check_def invariant_def requiredParamInvariant_def sub_object_def
  invoke_def useMutation_def invalidateContractAndBalances_def

lemma derive_inject:
  "derive a op p = derive a' op' p' \<longleftrightarrow> a = a' \<and> op = op' \<and> p = p'"
  by (auto simp: derive_def)

lemma queryKey_useQueryWithNetwork: "queryKey (useQueryWithNetwork k f opts) = k"
  by (simp add: useQueryWithNetwork_def)

lemma disabled_query_inactive:
  "\<not> enabled opts \<Longrightarrow> inactive (useQueryWithNetwork k f opts)"
  by (simp add: useQueryWithNetwork_def inactive_def)

lemma invalidations_append: "invalidations (xs @ ys) = invalidations xs @ invalidations ys"
  by (induction xs rule: invalidations.induct) simp_all

lemma invalidations_check:
  "(\<And>v. invalidations (fst (k v)) = []) \<Longrightarrow> invalidations (fst (check r k)) = []"
  by (simp add: check_def split: sum.splits)

lemma invalidations_invoke: "invalidations (fst (invoke c present k)) = []"
  by (simp add: invoke_def)

lemmas no_invalidation = invalidations_check invalidations_invoke

lemma useMutation_settles:
  assumes "invalidations (fst (mutationFn v)) = []"
  shows "settles_with_invalidation
           (useMutation mutationFn (\<lambda>_. invalidateContractAndBalances a n) v) a n"
  using assms
  by (simp add: settles_with_invalidation_def useMutation_def
      invalidateContractAndBalances_def invalidations_append)

lemma filter_array_total: "filter_array (\<lambda>x. Inr (P x)) xs = Inr (filter P xs)"
  by (induction xs) simp_all

lemma filter_array_throws:
  "xs \<noteq> [] \<Longrightarrow> filter_array (\<lambda>x. Inl e) xs = Inl e"
  by (cases xs) simp_all

subsection \<open>Cache keys of the read hooks\<close>

text \<open>
  The deriver keeps keys of different operations apart: the winning-bid query and the
  auction-winner query of one listing have different keys.
\<close>

lemma useWinningBid_key_differs:
  "queryKey (useWinningBid contract listingId) \<noteq> queryKey (useAuctionWinner contract listingId)"
  by (simp add: useWinningBid_def useAuctionWinner_def queryKey_useQueryWithNetwork
      marketplace_auction_getWinningBid_def marketplace_auction_getWinner_def derive_inject)

text \<open>
  C1. The claim: read operations of different names on one contract get different cache
  keys, in particular \<^verbatim>\<open>useMinimumNextBid\<close> and \<^verbatim>\<open>useAuctionWinner\<close> for the same contract
  address and listing id. The code: \<^verbatim>\<open>useMinimumNextBid\<close> takes its key from
  \<^verbatim>\<open>cacheKeys.contract.marketplace.auction.getWinner\<close>, the accessor \<^verbatim>\<open>useAuctionWinner\<close>
  uses, so for every contract and every listing id the two queries have the same key.
\<close>

theorem useMinimumNextBid_key_is_useAuctionWinner_key:
  "queryKey (useMinimumNextBid contract listingId) =
   queryKey (useAuctionWinner contract listingId)"
  by (simp add: useMinimumNextBid_def useAuctionWinner_def queryKey_useQueryWithNetwork)

text \<open>The two queries that share the key ask the contract for different things.\<close>

lemma useMinimumNextBid_fetches_another_value:
  "effects (useMinimumNextBid (Some (example_contract (Inr 0))) (Some 7)) =
     [ProviderCall (AuctionGetMinimumNextBid 7)] \<and>
   effects (useAuctionWinner (Some (example_contract (Inr 0))) (Some 7)) =
     [ProviderCall (AuctionGetWinner 7)]"
  by (simp add: useMinimumNextBid_def useAuctionWinner_def useQueryWithNetwork_def
      try_catch_def fetch_defs example_contract_def full_auction_def)

subsection \<open>Reads without a handle or without a listing id\<close>

text \<open>
  C6. Each of the eight read hooks, given an absent contract handle, yields a disabled
  query: \<^verbatim>\<open>enabled\<close> is false, the contract is not called, and the result is pending, not
  an error. This holds whatever the listing id or the filter is.
\<close>

theorem read_hooks_disabled_without_contract:
  "inactive (useListing None listingId) \<and>
   inactive (useListings None filt) \<and>
   inactive (useListingsCount None) \<and>
   inactive (useActiveListings None filt) \<and>
   inactive (useWinningBid None listingId) \<and>
   inactive (useAuctionWinner None listingId) \<and>
   inactive (useBidBuffer None) \<and>
   inactive (useMinimumNextBid None listingId)"
  by (simp add: useListing_def useListings_def useListingsCount_def useActiveListings_def
      useWinningBid_def useAuctionWinner_def useBidBuffer_def useMinimumNextBid_def
      disabled_query_inactive)

text \<open>
  C10. With a contract handle and no listing id, \<^verbatim>\<open>useWinningBid\<close>, \<^verbatim>\<open>useAuctionWinner\<close>
  and \<^verbatim>\<open>useMinimumNextBid\<close> stay disabled and pending and do not call the contract, while
  \<^verbatim>\<open>useListing\<close>, whose \<^verbatim>\<open>enabled\<close> tests the contract only, runs its fetcher, which throws
  "No listing id provided" before any call: its result is an error.
\<close>

theorem useListing_enabled_without_listingId:
  "inactive (useWinningBid (Some c) None) \<and>
   inactive (useAuctionWinner (Some c) None) \<and>
   inactive (useMinimumNextBid (Some c) None) \<and>
   enabled (options (useListing (Some c) None)) \<and>
   effects (useListing (Some c) None) = [] \<and>
   state (useListing (Some c) None) = Failed (InvariantFailed ''No listing id provided'')"
  by (simp add: useListing_def useWinningBid_def useAuctionWinner_def useMinimumNextBid_def
      inactive_def useQueryWithNetwork_def check_def requiredParamInvariant_def)

subsection \<open>The tolerated failure of the auction winner\<close>

lemma useAuctionWinner_resolves:
  assumes "auction c = Some a" and "a_getWinner a"
    and "provider c (AuctionGetWinner l) = Inr winner"
  shows "state (useAuctionWinner (Some c) (Some l)) = Data (Some winner)"
  using assms
  by (simp add: useAuctionWinner_def useQueryWithNetwork_def try_catch_def fetch_defs)

text \<open>
  C5. When \<^verbatim>\<open>auction.getWinner\<close> rejects, the query of \<^verbatim>\<open>useAuctionWinner\<close> resolves with
  data \<^verbatim>\<open>undefined\<close> if the rejection has a message that contains
  "Could not find auction", and otherwise (another message, or none) ends in the error
  state with the very rejection. The contract was called once either way.
\<close>

theorem useAuctionWinner_tolerates_missing_auction:
  assumes "auction c = Some a" and "a_getWinner a"
    and "provider c (AuctionGetWinner l) = Inl err"
  shows "state (useAuctionWinner (Some c) (Some l)) =
           (if (\<exists>m. message err = Some m \<and> str_includes m ''Could not find auction'')
            then Data None else Failed err) \<and>
         effects (useAuctionWinner (Some c) (Some l)) = [ProviderCall (AuctionGetWinner l)]"
  using assms
  by (auto simp: useAuctionWinner_def useQueryWithNetwork_def try_catch_def fetch_defs
      split: option.splits)

theorem useAuctionWinner_tolerates_missing_auction_witness:
  "state (useAuctionWinner
            (Some (example_contract
               (Inl (ProviderRejection (Some ''Error: Could not find auction with ID: 3'')))))
            (Some 3)) = Data None \<and>
   state (useAuctionWinner
            (Some (example_contract (Inl (ProviderRejection (Some ''execution reverted'')))))
            (Some 3)) = Failed (ProviderRejection (Some ''execution reverted'')) \<and>
   state (useAuctionWinner (Some (example_contract (Inl (ProviderRejection None)))) (Some 3)) =
     Failed (ProviderRejection None)"
  using
    useAuctionWinner_tolerates_missing_auction
      [of "example_contract
             (Inl (ProviderRejection (Some ''Error: Could not find auction with ID: 3'')))"
          full_auction 3
          "ProviderRejection (Some ''Error: Could not find auction with ID: 3'')"]
    useAuctionWinner_tolerates_missing_auction
      [of "example_contract (Inl (ProviderRejection (Some ''execution reverted'')))"
          full_auction 3 "ProviderRejection (Some ''execution reverted'')"]
    useAuctionWinner_tolerates_missing_auction
      [of "example_contract (Inl (ProviderRejection None))" full_auction 3
          "ProviderRejection None"]
  by (simp add: example_contract_def full_auction_def str_includes_def sublist_code(3))

subsection \<open>Offers of a listing\<close>

text \<open>With no listing id the comparison throws at the first event.\<close>

lemma useOffers_without_listingId:
  "result_data result = Some evs \<Longrightarrow> evs \<noteq> [] \<Longrightarrow>
   useOffers result None = Inl (InvalidArgument ''invalid BigNumber value'')"
  by (simp add: useOffers_def bn_eq_def filter_array_throws)

lemma useOffers_members:
  assumes "useOffers result (Some target) = Inr out" and "result_data result = Some evs"
  shows "\<exists>offers. result_data out = Some offers \<and>
           set offers = {ev_data ev | ev. ev \<in> set evs \<and> ev_listingId (ev_data ev) = target}"
  using assms by (auto simp add: useOffers_def bn_eq_def filter_array_total)

text \<open>
  C9. For every state of the \<^verbatim>\<open>NewOffer\<close> stream and every target listing id,
  \<^verbatim>\<open>useOffers\<close> returns the data of exactly the events whose listing id equals the target
  as integers of arbitrary size, in the order and number of the stream, the other fields
  of the result unchanged; while the stream has no data the view has none either.
\<close>

theorem useOffers_filters_by_big_number_equality:
  "useOffers result (Some target) =
     Inr \<lparr>result_data =
            map_option
              (\<lambda>evs. map ev_data (filter (\<lambda>ev. ev_listingId (ev_data ev) = target) evs))
              (result_data result),
          result_rest = result_rest result\<rparr>"
  by (cases "result_data result") (simp_all add: useOffers_def bn_eq_def filter_array_total)

text \<open>
  Listing ids beyond the range in which a JavaScript number is exact: 2^53 and 2^53 + 1
  are told apart.
\<close>

theorem useOffers_filters_by_big_number_equality_witness:
  "useOffers example_events (Some 9007199254740992) =
     Inr \<lparr>result_data =
            Some [\<lparr>ev_listingId = 9007199254740992, ev_offer = 2\<rparr>,
                  \<lparr>ev_listingId = 9007199254740992, ev_offer = 4\<rparr>],
          result_rest = False\<rparr>"
  using useOffers_filters_by_big_number_equality [of example_events 9007199254740992]
  by (simp add: example_events_def)

subsection \<open>Invalidation when a mutation settles\<close>

lemma useCreateDirectListing_settles:
  "settles_with_invalidation (useCreateDirectListing env contract data)
     (map_option getAddress contract) (activeChainId env)"
  unfolding useCreateDirectListing_def Let_def
  by (rule useMutation_settles) (simp add: no_invalidation)

lemma useCreateAuctionListing_settles:
  "settles_with_invalidation (useCreateAuctionListing env contract data)
     (map_option getAddress contract) (activeChainId env)"
  unfolding useCreateAuctionListing_def Let_def
  by (rule useMutation_settles) (simp add: no_invalidation)

lemma useCancelListing_settles:
  "settles_with_invalidation (useCancelListing env contract ref)
     (map_option getAddress contract) (activeChainId env)"
  unfolding useCancelListing_def Let_def
  by (rule useMutation_settles) (simp add: no_invalidation split: option.splits)

lemma useMakeBid_settles:
  "settles_with_invalidation (useMakeBid env contract bid)
     (map_option getAddress contract) (activeChainId env)"
  unfolding useMakeBid_def Let_def
  by (rule useMutation_settles) (simp add: no_invalidation)

lemma useMakeOffer_settles:
  "settles_with_invalidation (useMakeOffer env contract offer)
     (map_option getAddress contract) (activeChainId env)"
  unfolding useMakeOffer_def Let_def
  by (rule useMutation_settles) (simp add: no_invalidation)

lemma useAcceptDirectListingOffer_settles:
  "settles_with_invalidation (useAcceptDirectListingOffer env contract acc)
     (map_option getAddress contract) (activeChainId env)"
  unfolding useAcceptDirectListingOffer_def Let_def
  by (rule useMutation_settles) (simp add: no_invalidation split: option.splits)

lemma useExecuteAuctionSale_settles:
  "settles_with_invalidation (useExecuteAuctionSale env contract sale)
     (map_option getAddress contract) (activeChainId env)"
  unfolding useExecuteAuctionSale_def Let_def
  by (rule useMutation_settles) (simp add: no_invalidation split: option.splits)

lemma useBuyNow_settles:
  "settles_with_invalidation (useBuyNow env contract params)
     (map_option getAddress contract) (activeChainId env)"
  unfolding useBuyNow_def Let_def
  by (rule useMutation_settles) (simp add: no_invalidation)

text \<open>
  C4. Every write hook passes \<^verbatim>\<open>onSettled\<close>, so each mutation, whatever it settles to
  (a resolved call, a rejected call, or a failed check before any call), ends with the
  invalidation for the address of the contract and the active chain id, performed once
  and after the effects of the mutation function.
\<close>

theorem write_hooks_invalidate_on_settled:
  "settles_with_invalidation (useCreateDirectListing env contract data)
     (map_option getAddress contract) (activeChainId env) \<and>
   settles_with_invalidation (useCreateAuctionListing env contract data)
     (map_option getAddress contract) (activeChainId env) \<and>
   settles_with_invalidation (useCancelListing env contract ref)
     (map_option getAddress contract) (activeChainId env) \<and>
   settles_with_invalidation (useMakeBid env contract bid)
     (map_option getAddress contract) (activeChainId env) \<and>
   settles_with_invalidation (useMakeOffer env contract offer)
     (map_option getAddress contract) (activeChainId env) \<and>
   settles_with_invalidation (useAcceptDirectListingOffer env contract acc)
     (map_option getAddress contract) (activeChainId env) \<and>
   settles_with_invalidation (useExecuteAuctionSale env contract sale)
     (map_option getAddress contract) (activeChainId env) \<and>
   settles_with_invalidation (useBuyNow env contract params)
     (map_option getAddress contract) (activeChainId env)"
  by (simp only: useCreateDirectListing_settles useCreateAuctionListing_settles
      useCancelListing_settles useMakeBid_settles useMakeOffer_settles
      useAcceptDirectListingOffer_settles useExecuteAuctionSale_settles useBuyNow_settles
      simp_thms)

text \<open>A bid the contract rejects: the mutation fails and the invalidation follows the call.\<close>

theorem write_hooks_invalidate_on_settled_witness:
  "useMakeBid connected
     (Some (example_contract (Inl (ProviderRejection (Some ''execution reverted'')))))
     \<lparr>mb_listingId = 1, mb_bid = 2\<rparr> =
     ([ProviderCall (AuctionMakeBid 1 2), Invalidate (Some ''0xMarket'') (Some 1)],
      Inl (ProviderRejection (Some ''execution reverted''))) \<and>
   settles_with_invalidation
     (useMakeBid connected
        (Some (example_contract (Inl (ProviderRejection (Some ''execution reverted'')))))
        \<lparr>mb_listingId = 1, mb_bid = 2\<rparr>)
     (Some ''0xMarket'') (Some 1)"
  using write_hooks_invalidate_on_settled
    [where env = connected
       and contract =
         "Some (example_contract (Inl (ProviderRejection (Some ''execution reverted''))))"
       and bid = "\<lparr>mb_listingId = 1, mb_bid = 2\<rparr>"]
  by (simp add: useMakeBid_def fetch_defs truthy_def connected_def example_contract_def
      full_auction_def)

subsection \<open>Dispatch on the listing type\<close>

lemma useCancelListing_calls:
  "provider_calls (fst (useCancelListing env contract data)) =
     (case contract of
        None \<Rightarrow> []
      | Some c \<Rightarrow>
          (case listing_type data of
             Auction \<Rightarrow>
               (case auction c of
                  None \<Rightarrow> []
                | Some a \<Rightarrow>
                    if a_cancelListing a then [AuctionCancelListing (listing_id data)] else [])
           | Direct \<Rightarrow>
               (case direct c of
                  None \<Rightarrow> []
                | Some d \<Rightarrow>
                    if d_cancelListing d then [DirectCancelListing (listing_id data)] else [])))"
  by (cases "listing_type data")
     (simp_all add: useCancelListing_def fetch_defs split: option.splits)

lemma useBuyNow_calls:
  "provider_calls (fst (useBuyNow env contract data)) =
     (if \<not> truthy (walletAddress env) then []
      else
        case contract of
          None \<Rightarrow> []
        | Some c \<Rightarrow>
            (case bn_type data of
               Direct \<Rightarrow>
                 (case direct c of
                    None \<Rightarrow> []
                  | Some d \<Rightarrow>
                      if d_buyoutListing d
                      then [DirectBuyoutListing (bn_id data) (bn_buyAmount data)
                              (bn_buyForWallet data)]
                      else [])
             | Auction \<Rightarrow>
                 (case auction c of
                    None \<Rightarrow> []
                  | Some a \<Rightarrow>
                      if a_buyoutListing a then [AuctionBuyoutListing (bn_id data)] else [])))"
  by (cases "bn_type data")
     (simp_all add: useBuyNow_def fetch_defs split: option.splits)

text \<open>
  C7. Cancel and buy-now choose the contract call by the type tag of the input. When the
  checks before the call pass (a contract with the method; for buy-now also a connected
  wallet), \<^verbatim>\<open>useCancelListing\<close> with type Auction calls \<^verbatim>\<open>auction.cancelListing(id)\<close> and
  with type Direct \<^verbatim>\<open>direct.cancelListing(id)\<close>, \<^verbatim>\<open>useBuyNow\<close> with type Direct calls
  \<^verbatim>\<open>direct.buyoutListing(id, buyAmount, buyForWallet)\<close> and with type Auction
  \<^verbatim>\<open>auction.buyoutListing(id)\<close>, and that call is the only one. For every input at all, the
  hook calls nothing but the path of the tag, at most once: the other path is never
  invoked.
\<close>

theorem cancel_and_buyNow_dispatch_on_type:
  "(auction c = Some a \<and> a_cancelListing a \<longrightarrow>
      provider_calls
        (fst (useCancelListing env (Some c) \<lparr>listing_type = Auction, listing_id = i\<rparr>)) =
      [AuctionCancelListing i]) \<and>
   (direct c = Some d \<and> d_cancelListing d \<longrightarrow>
      provider_calls
        (fst (useCancelListing env (Some c) \<lparr>listing_type = Direct, listing_id = i\<rparr>)) =
      [DirectCancelListing i]) \<and>
   (truthy (walletAddress env) \<and> direct c = Some d \<and> d_buyoutListing d \<longrightarrow>
      provider_calls
        (fst (useBuyNow env (Some c)
           \<lparr>bn_id = i, bn_type = Direct, bn_buyAmount = amt, bn_buyForWallet = w\<rparr>)) =
      [DirectBuyoutListing i amt w]) \<and>
   (truthy (walletAddress env) \<and> auction c = Some a \<and> a_buyoutListing a \<longrightarrow>
      provider_calls
        (fst (useBuyNow env (Some c)
           \<lparr>bn_id = i, bn_type = Auction, bn_buyAmount = amt, bn_buyForWallet = w\<rparr>)) =
      [AuctionBuyoutListing i]) \<and>
   (provider_calls (fst (useCancelListing env contract ref)) = [] \<or>
    provider_calls (fst (useCancelListing env contract ref)) = [cancel_path ref]) \<and>
   (provider_calls (fst (useBuyNow env contract params)) = [] \<or>
    provider_calls (fst (useBuyNow env contract params)) = [buyNow_path params])"
  by (simp add: useCancelListing_calls useBuyNow_calls cancel_path_def buyNow_path_def
      split: option.splits ListingType.splits)

theorem cancel_and_buyNow_dispatch_on_type_witness:
  "provider_calls
     (fst (useCancelListing connected (Some (example_contract (Inr 0)))
        \<lparr>listing_type = Auction, listing_id = 7\<rparr>)) = [AuctionCancelListing 7] \<and>
   provider_calls
     (fst (useCancelListing connected (Some (example_contract (Inr 0)))
        \<lparr>listing_type = Direct, listing_id = 7\<rparr>)) = [DirectCancelListing 7] \<and>
   provider_calls
     (fst (useBuyNow connected (Some (example_contract (Inr 0)))
        \<lparr>bn_id = 7, bn_type = Direct, bn_buyAmount = Some 1,
         bn_buyForWallet = Some ''0xFriend''\<rparr>)) =
     [DirectBuyoutListing 7 (Some 1) (Some ''0xFriend'')] \<and>
   provider_calls
     (fst (useBuyNow connected (Some (example_contract (Inr 0)))
        \<lparr>bn_id = 7, bn_type = Auction, bn_buyAmount = None, bn_buyForWallet = None\<rparr>)) =
     [AuctionBuyoutListing 7]"
  using
    cancel_and_buyNow_dispatch_on_type
      [where c = "example_contract (Inr 0)" and a = full_auction and d = full_direct
         and env = connected and i = 7 and amt = "Some 1" and w = "Some ''0xFriend''"
         and contract = "Some (example_contract (Inr 0))"
         and ref = "\<lparr>listing_type = Auction, listing_id = 7\<rparr>"
         and params =
           "\<lparr>bn_id = 7, bn_type = Auction, bn_buyAmount = None, bn_buyForWallet = None\<rparr>"]
    cancel_and_buyNow_dispatch_on_type
      [where c = "example_contract (Inr 0)" and a = full_auction and d = full_direct
         and env = connected and i = 7 and amt = None and w = None
         and contract = "Some (example_contract (Inr 0))"
         and ref = "\<lparr>listing_type = Auction, listing_id = 7\<rparr>"
         and params =
           "\<lparr>bn_id = 7, bn_type = Auction, bn_buyAmount = None, bn_buyForWallet = None\<rparr>"]
  by (simp add: example_contract_def full_auction_def full_direct_def connected_def truthy_def)

subsection \<open>Checks before a write\<close>

lemmas write_hook_defs = useCreateDirectListing_def useCreateAuctionListing_def
  useMakeBid_def useMakeOffer_def useAcceptDirectListingOffer_def
  useExecuteAuctionSale_def useBuyNow_def

text \<open>
  Seven of the eight write hooks test the wallet first: with no wallet connected they
  fail with the "no wallet connected" error and never call the contract.
\<close>

lemma checked_writes_fail_without_wallet:
  assumes "\<not> truthy (walletAddress env)"
  shows
    "useCreateDirectListing env contract data =
       ([Invalidate (map_option getAddress contract) (activeChainId env)],
        Inl (InvariantFailed ''no wallet connected, cannot create listing'')) \<and>
     useCreateAuctionListing env contract data =
       ([Invalidate (map_option getAddress contract) (activeChainId env)],
        Inl (InvariantFailed ''no wallet connected, cannot create listing'')) \<and>
     useMakeBid env contract bid =
       ([Invalidate (map_option getAddress contract) (activeChainId env)],
        Inl (InvariantFailed ''no wallet connected, cannot make bid'')) \<and>
     useMakeOffer env contract offer =
       ([Invalidate (map_option getAddress contract) (activeChainId env)],
        Inl (InvariantFailed ''no wallet connected, cannot make bid'')) \<and>
     useAcceptDirectListingOffer env contract acc =
       ([Invalidate (map_option getAddress contract) (activeChainId env)],
        Inl (InvariantFailed ''no wallet connected, cannot make bid'')) \<and>
     useExecuteAuctionSale env contract sale =
       ([Invalidate (map_option getAddress contract) (activeChainId env)],
        Inl (InvariantFailed ''no wallet connected, cannot make bid'')) \<and>
     useBuyNow env contract params =
       ([Invalidate (map_option getAddress contract) (activeChainId env)],
        Inl (InvariantFailed ''no wallet connected, cannot make bid''))"
  using assms by (simp add: write_hook_defs fetch_defs)

text \<open>
  C2. The claim: a write with no active wallet address never calls the contract and
  fails with the unauthenticated error, \<^verbatim>\<open>useCancelListing\<close> included. The code:
  \<^verbatim>\<open>useCancelListing\<close> does not read the wallet address at all; with no wallet connected
  and a contract that has \<^verbatim>\<open>auction.cancelListing\<close>, it calls the contract and settles to
  whatever the call settles to.
\<close>

theorem useCancelListing_calls_contract_without_wallet:
  "useCancelListing \<lparr>walletAddress = None, activeChainId = n\<rparr>
     (Some \<lparr>getAddress = addr, direct = d,
            auction = Some (a\<lparr>a_cancelListing := True\<rparr>), provider = p\<rparr>)
     \<lparr>listing_type = Auction, listing_id = i\<rparr> =
     ([ProviderCall (AuctionCancelListing i), Invalidate (Some addr) n],
      map_sum id Some (p (AuctionCancelListing i)))"
  by (simp add: useCancelListing_def fetch_defs)

text \<open>
  With a wallet connected and no contract handle, the same seven hooks fail with the
  error of \<^verbatim>\<open>requiredParamInvariant\<close> and never call the contract.
\<close>

lemma checked_writes_fail_without_contract:
  assumes "truthy (walletAddress env)"
  shows
    "useCreateDirectListing env None data =
       ([Invalidate None (activeChainId env)],
        Inl (InvariantFailed ''No Contract instance provided'')) \<and>
     useCreateAuctionListing env None data =
       ([Invalidate None (activeChainId env)],
        Inl (InvariantFailed ''No Contract instance provided'')) \<and>
     useMakeBid env None bid =
       ([Invalidate None (activeChainId env)],
        Inl (InvariantFailed ''No Contract instance provided'')) \<and>
     useMakeOffer env None offer =
       ([Invalidate None (activeChainId env)],
        Inl (InvariantFailed ''No Contract instance provided'')) \<and>
     useAcceptDirectListingOffer env None acc =
       ([Invalidate None (activeChainId env)],
        Inl (InvariantFailed ''No Direct instance provided'')) \<and>
     useExecuteAuctionSale env None sale =
       ([Invalidate None (activeChainId env)],
        Inl (InvariantFailed ''No Auction marketplace instance provided'')) \<and>
     useBuyNow env None params =
       ([Invalidate None (activeChainId env)],
        Inl (InvariantFailed ''No Contract instance provided''))"
  using assms by (simp add: write_hook_defs fetch_defs)

text \<open>
  C8. The claim: a write with an absent contract handle fails with the missing-resource
  error, \<^verbatim>\<open>useCancelListing\<close> included. The code: \<^verbatim>\<open>useCancelListing\<close> reaches the contract
  through \<^verbatim>\<open>contract?.\<close>, so with an absent handle, whatever the wallet and the input, the
  mutation resolves with \<^verbatim>\<open>undefined\<close>: no call, and no error either.
\<close>

theorem useCancelListing_resolves_without_contract:
  "useCancelListing env None ref = ([Invalidate None (activeChainId env)], Inr None)"
  by (simp add: useCancelListing_def fetch_defs)

text \<open>
  \<^verbatim>\<open>useCreateDirectListing\<close>, \<^verbatim>\<open>useMakeBid\<close> and \<^verbatim>\<open>useBuyNow\<close> test the method they call:
  when it is missing they fail with the "does not support" error before any call.
\<close>

lemma useCreateDirectListing_checks_its_method:
  assumes "truthy (walletAddress env)" and "direct c = Some d"
  shows "useCreateDirectListing env (Some c) data =
     (if d_createListing d
      then ([ProviderCall (DirectCreateListing data),
             Invalidate (Some (getAddress c)) (activeChainId env)],
            map_sum id Some (provider c (DirectCreateListing data)))
      else ([Invalidate (Some (getAddress c)) (activeChainId env)],
            Inl (InvariantFailed ''contract does not support direct.createListing'')))"
  using assms by (simp add: useCreateDirectListing_def fetch_defs)

lemma useMakeBid_checks_its_method:
  assumes "truthy (walletAddress env)" and "auction c = Some a"
  shows "useMakeBid env (Some c) bid =
     (if a_makeBid a
      then ([ProviderCall (AuctionMakeBid (mb_listingId bid) (mb_bid bid)),
             Invalidate (Some (getAddress c)) (activeChainId env)],
            map_sum id Some (provider c (AuctionMakeBid (mb_listingId bid) (mb_bid bid))))
      else ([Invalidate (Some (getAddress c)) (activeChainId env)],
            Inl (InvariantFailed ''contract does not support auction.makeBid'')))"
  using assms by (simp add: useMakeBid_def fetch_defs)

text \<open>
  C3. The claim: each write hook tests, before the call, the very method it then calls,
  \<^verbatim>\<open>useCreateAuctionListing\<close> testing \<^verbatim>\<open>contract.auction.createListing\<close>. The code:
  \<^verbatim>\<open>useCreateAuctionListing\<close> tests \<^verbatim>\<open>contract.direct.createListing\<close> and calls
  \<^verbatim>\<open>contract.auction.createListing\<close>. On a contract with the direct method and without
  the auction one the test passes and the call itself throws a type error; on a contract
  without the direct method and with the auction one the hook fails with
  "contract does not support auction.createListing" although the method is there.
\<close>

theorem useCreateAuctionListing_tests_direct_createListing:
  "useCreateAuctionListing \<lparr>walletAddress = Some ''0xWallet'', activeChainId = n\<rparr>
     (Some \<lparr>getAddress = addr,
            direct = Some (d\<lparr>d_createListing := True\<rparr>),
            auction = Some (a\<lparr>a_createListing := False\<rparr>), provider = p\<rparr>) data =
     ([Invalidate (Some addr) n], Inl (TypeError ''is not a function'')) \<and>
   useCreateAuctionListing \<lparr>walletAddress = Some ''0xWallet'', activeChainId = n\<rparr>
     (Some \<lparr>getAddress = addr,
            direct = Some (d\<lparr>d_createListing := False\<rparr>),
            auction = Some (a\<lparr>a_createListing := True\<rparr>), provider = p\<rparr>) data =
     ([Invalidate (Some addr) n],
      Inl (InvariantFailed ''contract does not support auction.createListing''))"
  by (simp add: useCreateAuctionListing_def fetch_defs truthy_def)

end
